theory Spec2Isabelle
  imports Complex_Main "HOL-Library.Log_Nat"
begin

section \<open>Data model\<close>

text \<open>
  The order controller (\<^verbatim>\<open>orderController.js\<close>) and the Stripe wrapper
  (\<^verbatim>\<open>config/stripe.js\<close>) are embedded as functions on an explicit database state.
  Identifiers are Mongo ObjectIds, compared through their string form.  Quantities and
  stock counts are JavaScript numbers restricted to integers.  Prices are JavaScript
  numbers as well: finite binary64 values, each carried as the rational it denotes.
\<close>

type_synonym object_id = string

datatype js_val = JSUndefined | JSString string | JSNumber int

text \<open>
  Every \<^verbatim>\<open>throw\<close> of the controller is a value of \<open>error\<close>, carrying the message:
  \<^item> status 400, "No order items": \<open>ValidationError\<close>;
  \<^item> status 404, "Product not found: ..." and "Order not found": \<open>NotFoundError\<close>;
  \<^item> status 400, "Insufficient stock for product: ...": \<open>InsufficientStockError\<close>;
  \<^item> status 400, "Order cannot be refunded", "Order cannot be canceled":
    \<open>InvalidTransitionError\<close>;
  \<^item> status 403, "Not authorized to view this order": \<open>ForbiddenError\<close>;
  \<^item> an error thrown by the Stripe client (rethrown by \<^verbatim>\<open>createPaymentIntent\<close>, wrapped
    with status 500 by \<^verbatim>\<open>processOrderRefund\<close>): \<open>PaymentError\<close>;
  \<^item> reading a property of \<^verbatim>\<open>null\<close>: \<open>TypeError\<close>.
\<close>

datatype error =
    ValidationError string
  | NotFoundError string
  | InsufficientStockError string
  | InvalidTransitionError string
  | ForbiddenError string
  | PaymentError string
  | TypeError string

record product =
  product_name :: string
  countInStock :: int

record order_item =
  name :: string
  quantity :: int
  image_url :: string
  price :: rat
  product :: object_id

datatype order_status = Placed | Shipped | Delivered | Canceled | Refunded

record payment_result =
  pr_id :: js_val
  pr_status :: js_val
  update_time :: js_val
  email_address :: js_val

record refund_result =
  rr_id :: js_val
  rr_status :: js_val

record shipping_address =
  street :: string
  city :: string
  state :: string
  postalCode :: string
  country :: string

text \<open>The fields of \<^verbatim>\<open>req.body\<close> that \<^verbatim>\<open>addOrderItems\<close> reads.\<close>

record order_body =
  orderItems :: "order_item list"
  shippingAddress :: shipping_address
  paymentMethod :: string
  itemsPrice :: rat
  taxPrice :: rat
  shippingPrice :: rat
  totalPrice :: rat

record order = order_body +
  order_id :: object_id
  user :: object_id
  isPaid :: bool
  paidAt :: "int option"
  isDelivered :: bool
  deliveredAt :: "int option"
  isRefunded :: bool
  refundedAt :: "int option"
  canceledAt :: "int option"
  orderStatus :: order_status
  paymentResult :: payment_result
  refundResult :: refund_result

text \<open>\<^verbatim>\<open>req.user\<close>, as the authentication middleware attaches it.\<close>

record user_doc =
  user_id :: object_id
  firstName :: string
  lastName :: string
  email :: string
  role :: string

text \<open>
  Modelled from the spec: the Record Store.  The Mongoose models \<^verbatim>\<open>User\<close>,
  \<^verbatim>\<open>Product\<close> and \<^verbatim>\<open>Order\<close> are not part of the sources; \<^verbatim>\<open>findById\<close> is a lookup in
  a finite map keyed by identifier, \<^verbatim>\<open>save\<close> an update of that map, which persists the
  document as it is, and \<^verbatim>\<open>remove\<close> deletes the key.
\<close>

record db =
  users :: "object_id \<rightharpoonup> user_doc"
  products :: "object_id \<rightharpoonup> product"
  orders :: "object_id \<rightharpoonup> order"

section \<open>Payment gateway (config/stripe.js)\<close>

record payment_intent =
  intent_id :: string
  client_secret :: string

record refund =
  refund_id :: string
  refund_status :: string

text \<open>
  The Stripe client is an external collaborator: each of its two calls either throws
  (\<open>Inl\<close> with the error's message) or returns an object.
\<close>

record stripe =
  paymentIntents_create :: "int \<Rightarrow> string \<Rightarrow> string + payment_intent"
  refunds_create :: "js_val \<Rightarrow> int \<Rightarrow> string + refund"

subsection \<open>JavaScript numbers\<close>

text \<open>
  A JavaScript number is an IEEE 754 binary64 value: a sign, a significand of 53 bits
  and an exponent from -1022 to 1023.  Every arithmetic operation returns the binary64
  value nearest to the exact result, ties going to the even significand.  The finite
  values are rationals, and the model works on them; a result whose magnitude reaches
  \<open>2 ^ 1024\<close> is \<^verbatim>\<open>Infinity\<close> in JavaScript and is not represented.

  \<open>exponent_of x\<close> is the integer \<open>e\<close> with \<open>2 ^ e \<le> x < 2 ^ (e + 1)\<close>, for \<open>0 < x\<close>.
\<close>

definition exponent_of :: "rat \<Rightarrow> int" where
  "exponent_of x = (if 1 \<le> x then bitlen \<lfloor>x\<rfloor> - 1 else - bitlen (\<lceil>1 / x\<rceil> - 1))"

definition round_half_even :: "rat \<Rightarrow> int" where
  "round_half_even x =
     (let n = \<lfloor>x\<rfloor>; r = x - of_int n
      in if r < 1 / 2 then n else if 1 / 2 < r then n + 1 else if even n then n else n + 1)"

text \<open>
  The spacing of the binary64 values around \<open>x\<close>, for \<open>0 < x\<close>: 52 binary places below
  the leading bit, and \<open>2 ^ -1074\<close> in the subnormal range.
\<close>

definition ulp_of :: "rat \<Rightarrow> rat" where
  "ulp_of x = (let e = max (exponent_of x) (- 1022) - 52
               in if 0 \<le> e then 2 ^ nat e else 1 / 2 ^ nat (- e))"

text \<open>
  The binary64 value nearest to a rational.  It is also the value of a decimal literal:
  \<^verbatim>\<open>JSON.parse\<close> reads \<^verbatim>\<open>19.99\<close> as \<open>binary64 (1999 / 100)\<close>.
\<close>

definition binary64 :: "rat \<Rightarrow> rat" where
  "binary64 x =
     (if x = 0 then 0
      else if x < 0 then - (of_int (round_half_even (- x / ulp_of (- x))) * ulp_of (- x))
      else of_int (round_half_even (x / ulp_of x)) * ulp_of x)"

text \<open>The operator \<^verbatim>\<open>*\<close> on two numbers.\<close>

definition js_times :: "rat \<Rightarrow> rat \<Rightarrow> rat" where
  "js_times a b = binary64 (a * b)"

text \<open>
  \<^verbatim>\<open>Math.round\<close>: the nearest integer, a tie going up.  The result is itself a binary64
  value, so nothing is rounded twice.
\<close>

definition Math_round :: "rat \<Rightarrow> int" where
  "Math_round x = \<lfloor>x + 1 / 2\<rfloor>"

subsection \<open>The wrapper\<close>

text \<open>\<^verbatim>\<open>createPaymentIntent\<close> returns the intent's \<^verbatim>\<open>client_secret\<close>, a string.\<close>

definition createPaymentIntent :: "stripe \<Rightarrow> rat \<Rightarrow> string \<Rightarrow> string + string" where
  "createPaymentIntent st amount currency =
     (case paymentIntents_create st (Math_round (js_times amount 100)) currency of
        Inl err \<Rightarrow> Inl err
      | Inr paymentIntent \<Rightarrow> Inr (client_secret paymentIntent))"

definition processRefund :: "stripe \<Rightarrow> js_val \<Rightarrow> rat \<Rightarrow> string + refund" where
  "processRefund st paymentIntentId amount =
     (case refunds_create st paymentIntentId (Math_round (js_times amount 100)) of
        Inl err \<Rightarrow> Inl err
      | Inr r \<Rightarrow> Inr r)"

text \<open>
  Reading a named property of a primitive string: \<^verbatim>\<open>length\<close> is its length, and a name
  that is neither an index nor a member of \<^verbatim>\<open>String.prototype\<close> reads as
  \<^verbatim>\<open>undefined\<close>.  The controller reads \<^verbatim>\<open>id\<close> and \<^verbatim>\<open>client_secret\<close>.
\<close>

definition string_get :: "string \<Rightarrow> string \<Rightarrow> js_val" where
  "string_get s key = (if key = ''length'' then JSNumber (int (length s)) else JSUndefined)"

section \<open>Notifier (utils/sendEmail.js)\<close>

text \<open>
  \<^verbatim>\<open>sendOrderConfirmationEmail\<close> builds the message and catches every transport failure:
  it returns and changes no document.
\<close>

definition sendOrderConfirmationEmail :: "order \<Rightarrow> user_doc \<Rightarrow> unit" where
  "sendOrderConfirmationEmail ord u = ()"

text \<open>
  Modelled from the spec: \<^verbatim>\<open>sendOrderStatusUpdateEmail\<close> and
  \<^verbatim>\<open>sendRefundConfirmationEmail\<close>, which the controller imports and
  \<^verbatim>\<open>utils/sendEmail.js\<close> does not define.  The Notifier's failures are logged and never
  escalated, and it changes no document.
\<close>

definition sendOrderStatusUpdateEmail :: "order \<Rightarrow> user_doc \<Rightarrow> unit" where
  "sendOrderStatusUpdateEmail ord u = ()"

definition sendRefundConfirmationEmail :: "order \<Rightarrow> object_id \<Rightarrow> unit" where
  "sendRefundConfirmationEmail ord uid = ()"

section \<open>Order placement\<close>

text \<open>The first loop of \<^verbatim>\<open>addOrderItems\<close>: it reads the products and writes nothing.\<close>

fun validateStock :: "(object_id \<rightharpoonup> product) \<Rightarrow> order_item list \<Rightarrow> error option" where
  "validateStock ps [] = None"
| "validateStock ps (item # items) =
     (case ps (product item) of
        None \<Rightarrow> Some (NotFoundError (''Product not found: '' @ product item))
      | Some p \<Rightarrow>
          if countInStock p < quantity item
          then Some (InsufficientStockError (''Insufficient stock for product: '' @ product_name p))
          else validateStock ps items)"

text \<open>
  The second loop: each item loads its product again, subtracts and saves.  A product
  that is not found makes \<^verbatim>\<open>product.countInStock\<close> throw, after the earlier saves.
\<close>

fun debitStock ::
  "(object_id \<rightharpoonup> product) \<Rightarrow> order_item list \<Rightarrow> (object_id \<rightharpoonup> product) \<times> error option" where
  "debitStock ps [] = (ps, None)"
| "debitStock ps (item # items) =
     (case ps (product item) of
        None \<Rightarrow> (ps, Some (TypeError ''Cannot read properties of null''))
      | Some p \<Rightarrow>
          debitStock (ps(product item \<mapsto> p\<lparr>countInStock := countInStock p - quantity item\<rparr>)) items)"

text \<open>
  Modelled from the spec: the defaults of the Order schema (\<^verbatim>\<open>models/orderModel.js\<close> is
  not part of the sources): a new order is \<open>Placed\<close>, not paid, not delivered, not
  refunded, and its result fields are unset.  The identifier is the fresh ObjectId that
  Mongoose assigns.
\<close>

definition new_Order :: "object_id \<Rightarrow> user_doc \<Rightarrow> order_body \<Rightarrow> order" where
  "new_Order newId u body =
     \<lparr> orderItems = map (\<lambda>item. \<lparr> name = name item, quantity = quantity item,
                                   image_url = image_url item, price = price item,
                                   product = product item \<rparr>) (orderItems body),
       shippingAddress = shippingAddress body,
       paymentMethod = paymentMethod body,
       itemsPrice = itemsPrice body,
       taxPrice = taxPrice body,
       shippingPrice = shippingPrice body,
       totalPrice = totalPrice body,
       order_id = newId,
       user = user_id u,
       isPaid = False, paidAt = None,
       isDelivered = False, deliveredAt = None,
       isRefunded = False, refundedAt = None,
       canceledAt = None,
       orderStatus = Placed,
       paymentResult = \<lparr> pr_id = JSUndefined, pr_status = JSUndefined,
                         update_time = JSUndefined, email_address = JSUndefined \<rparr>,
       refundResult = \<lparr> rr_id = JSUndefined, rr_status = JSUndefined \<rparr> \<rparr>"

record placement_response =
  resp_order :: order
  clientSecret :: js_val

definition addOrderItems ::
  "stripe \<Rightarrow> object_id \<Rightarrow> user_doc \<Rightarrow> order_body \<Rightarrow> db \<Rightarrow> db \<times> (error + placement_response)" where
  "addOrderItems st newId u body d =
     (if orderItems body = [] then (d, Inl (ValidationError ''No order items''))
      else
        case validateStock (products d) (orderItems body) of
          Some e \<Rightarrow> (d, Inl e)
        | None \<Rightarrow>
            let ord = new_Order newId u body;
                (ps, failure) = debitStock (products d) (orderItems body);
                d1 = d\<lparr>products := ps\<rparr>
            in case failure of
                 Some e \<Rightarrow> (d1, Inl e)
               | None \<Rightarrow>
                   (case createPaymentIntent st (totalPrice body) ''usd'' of
                      Inl err \<Rightarrow> (d1, Inl (PaymentError err))
                    | Inr paymentIntent \<Rightarrow>
                        let ord1 = ord\<lparr>paymentResult :=
                                     (paymentResult ord)\<lparr>pr_id := string_get paymentIntent ''id'',
                                                          pr_status := JSString ''pending''\<rparr>\<rparr>;
                            d2 = d1\<lparr>orders := (orders d1)(order_id ord1 \<mapsto> ord1)\<rparr>;
                            sent = sendOrderConfirmationEmail ord1 u
                        in (d2, Inr \<lparr> resp_order = ord1,
                                     clientSecret = string_get paymentIntent ''client_secret'' \<rparr>)))"

section \<open>Order lookup and the transitions\<close>

text \<open>
  \<^verbatim>\<open>populate('user', 'firstName lastName email')\<close> replaces the owner reference of the
  loaded order by the owner's document, cut down to its identifier and the three named
  fields, or by \<^verbatim>\<open>null\<close> when no user has that identifier.
\<close>

record owner_doc =
  owner_id :: object_id
  owner_firstName :: string
  owner_lastName :: string
  owner_email :: string

definition populate_user :: "(object_id \<rightharpoonup> user_doc) \<Rightarrow> object_id \<Rightarrow> owner_doc option" where
  "populate_user us uid =
     (case us uid of
        None \<Rightarrow> None
      | Some owner \<Rightarrow> Some \<lparr> owner_id = user_id owner, owner_firstName = firstName owner,
                              owner_lastName = lastName owner, owner_email = email owner \<rparr>)"

text \<open>The answer of \<^verbatim>\<open>getOrderById\<close>: the order with its populated owner.\<close>

record populated_order =
  po_order :: order
  po_user :: owner_doc

text \<open>
  \<^verbatim>\<open>getOrderById\<close>.  The authorization check reads \<^verbatim>\<open>order.user._id\<close>, which throws
  when the populated owner is \<^verbatim>\<open>null\<close>.
\<close>

definition getOrderById :: "user_doc \<Rightarrow> object_id \<Rightarrow> db \<Rightarrow> error + populated_order" where
  "getOrderById u oid d =
     (case orders d oid of
        None \<Rightarrow> Inl (NotFoundError ''Order not found'')
      | Some ord \<Rightarrow>
          (case populate_user (users d) (user ord) of
             None \<Rightarrow> Inl (TypeError ''Cannot read properties of null'')
           | Some owner \<Rightarrow>
               if owner_id owner \<noteq> user_id u \<and> role u \<noteq> ''admin''
               then Inl (ForbiddenError ''Not authorized to view this order'')
               else Inr \<lparr> po_order = ord, po_user = owner \<rparr>))"

text \<open>\<^verbatim>\<open>deleteUser\<close> of the user controller: it removes the user and leaves the orders.\<close>

definition deleteUser :: "object_id \<Rightarrow> db \<Rightarrow> db \<times> (error + string)" where
  "deleteUser uid d =
     (case users d uid of
        Some u \<Rightarrow> (d\<lparr>users := (users d)(uid := None)\<rparr>, Inr ''User removed'')
      | None \<Rightarrow> (d, Inl (NotFoundError ''User not found'')))"

text \<open>
  The transitions load the order by \<^verbatim>\<open>req.params.id\<close>, change it and save it: the
  document is written back under the identifier it was loaded by.  \<open>now\<close> is the value
  of \<^verbatim>\<open>Date.now()\<close>.
\<close>

record pay_body =
  body_id :: js_val
  body_status :: js_val
  body_update_time :: js_val
  payer_email_address :: js_val

definition updateOrderToPaid ::
  "int \<Rightarrow> user_doc \<Rightarrow> pay_body \<Rightarrow> object_id \<Rightarrow> db \<Rightarrow> db \<times> (error + order)" where
  "updateOrderToPaid now u body oid d =
     (case orders d oid of
        None \<Rightarrow> (d, Inl (NotFoundError ''Order not found''))
      | Some ord \<Rightarrow>
          let updatedOrder = ord\<lparr>isPaid := True, paidAt := Some now,
                                 paymentResult := \<lparr> pr_id = body_id body,
                                                    pr_status = body_status body,
                                                    update_time = body_update_time body,
                                                    email_address = payer_email_address body \<rparr>\<rparr>;
              d1 = d\<lparr>orders := (orders d)(oid \<mapsto> updatedOrder)\<rparr>;
              sent = sendOrderStatusUpdateEmail updatedOrder u
          in (d1, Inr updatedOrder))"

definition updateOrderToDelivered ::
  "int \<Rightarrow> user_doc \<Rightarrow> object_id \<Rightarrow> db \<Rightarrow> db \<times> (error + order)" where
  "updateOrderToDelivered now u oid d =
     (case orders d oid of
        None \<Rightarrow> (d, Inl (NotFoundError ''Order not found''))
      | Some ord \<Rightarrow>
          let updatedOrder = ord\<lparr>isDelivered := True, deliveredAt := Some now,
                                 orderStatus := Delivered\<rparr>;
              d1 = d\<lparr>orders := (orders d)(oid \<mapsto> updatedOrder)\<rparr>;
              sent = sendOrderStatusUpdateEmail updatedOrder u
          in (d1, Inr updatedOrder))"

text \<open>
  The restocking loop shared by refund and cancel: a product that is no longer found is
  skipped.
\<close>

fun restoreStock :: "(object_id \<rightharpoonup> product) \<Rightarrow> order_item list \<Rightarrow> (object_id \<rightharpoonup> product)" where
  "restoreStock ps [] = ps"
| "restoreStock ps (item # items) =
     (case ps (product item) of
        None \<Rightarrow> restoreStock ps items
      | Some p \<Rightarrow>
          restoreStock (ps(product item \<mapsto> p\<lparr>countInStock := countInStock p + quantity item\<rparr>)) items)"

text \<open>
  \<^verbatim>\<open>processOrderRefund\<close>.  The eligibility check is outside the \<^verbatim>\<open>try\<close>; the gateway
  call is the first statement inside it, and the \<^verbatim>\<open>catch\<close> wraps the message.
\<close>

definition processOrderRefund ::
  "stripe \<Rightarrow> int \<Rightarrow> object_id \<Rightarrow> db \<Rightarrow> db \<times> (error + order)" where
  "processOrderRefund st now oid d =
     (case orders d oid of
        None \<Rightarrow> (d, Inl (NotFoundError ''Order not found''))
      | Some ord \<Rightarrow>
          if \<not> isPaid ord \<or> isRefunded ord
          then (d, Inl (InvalidTransitionError ''Order cannot be refunded''))
          else
            case processRefund st (pr_id (paymentResult ord)) (totalPrice ord) of
              Inl err \<Rightarrow> (d, Inl (PaymentError (''Refund processing failed: '' @ err)))
            | Inr r \<Rightarrow>
                let ord1 = ord\<lparr>isRefunded := True, refundedAt := Some now,
                               orderStatus := Refunded,
                               refundResult := \<lparr> rr_id = JSString (refund_id r),
                                                 rr_status = JSString (refund_status r) \<rparr>\<rparr>;
                    d1 = d\<lparr>products := restoreStock (products d) (orderItems ord1)\<rparr>;
                    d2 = d1\<lparr>orders := (orders d1)(oid \<mapsto> ord1)\<rparr>;
                    sent = sendRefundConfirmationEmail ord1 (user ord1)
                in (d2, Inr ord1))"

definition cancelOrder :: "int \<Rightarrow> user_doc \<Rightarrow> object_id \<Rightarrow> db \<Rightarrow> db \<times> (error + order)" where
  "cancelOrder now u oid d =
     (case orders d oid of
        None \<Rightarrow> (d, Inl (NotFoundError ''Order not found''))
      | Some ord \<Rightarrow>
          if orderStatus ord = Shipped \<or> orderStatus ord = Delivered
          then (d, Inl (InvalidTransitionError ''Order cannot be canceled''))
          else
            let d1 = d\<lparr>products := restoreStock (products d) (orderItems ord)\<rparr>;
                canceledOrder = ord\<lparr>orderStatus := Canceled, canceledAt := Some now\<rparr>;
                d2 = d1\<lparr>orders := (orders d1)(oid \<mapsto> canceledOrder)\<rparr>;
                sent = sendOrderStatusUpdateEmail canceledOrder u
            in (d2, Inr canceledOrder))"

text \<open>
  The quantity an item list asks of one product: the sum over the lines that reference
  it.
\<close>

definition requested :: "object_id \<Rightarrow> order_item list \<Rightarrow> int" where
  "requested pid items = sum_list (map quantity (filter (\<lambda>item. product item = pid) items))"

text \<open>
  An item the first loop rejects: its product is not found, or holds less than the
  quantity asked.
\<close>

definition unavailable :: "(object_id \<rightharpoonup> product) \<Rightarrow> order_item \<Rightarrow> bool" where
  "unavailable ps item =
     (case ps (product item) of None \<Rightarrow> True | Some p \<Rightarrow> countInStock p < quantity item)"

section \<open>Sequences of requests\<close>

text \<open>
  The three writers of \<open>countInStock\<close>, run one after the other; each request leaves
  the database its handler returns, whether it succeeded or failed.
\<close>

datatype request =
    Place stripe object_id user_doc order_body
  | Cancel int user_doc object_id
  | Refund stripe int object_id

fun handle :: "db \<Rightarrow> request \<Rightarrow> db" where
  "handle d (Place st newId u body) = fst (addOrderItems st newId u body d)"
| "handle d (Cancel now u oid) = fst (cancelOrder now u oid d)"
| "handle d (Refund st now oid) = fst (processOrderRefund st now oid d)"

definition nonneg_quantities :: "order_item list \<Rightarrow> bool" where
  "nonneg_quantities items = list_all (\<lambda>item. 0 \<le> quantity item) items"

fun one_line_per_product :: "request \<Rightarrow> bool" where
  "one_line_per_product (Place st newId u body) =
     (distinct (map product (orderItems body)) \<and> nonneg_quantities (orderItems body))"
| "one_line_per_product (Cancel now u oid) = True"
| "one_line_per_product (Refund st now oid) = True"

definition stock_nonneg :: "db \<Rightarrow> bool" where
  "stock_nonneg d = (\<forall>pid p. products d pid = Some p \<longrightarrow> 0 \<le> countInStock p)"

definition orders_nonneg :: "db \<Rightarrow> bool" where
  "orders_nonneg d = (\<forall>oid ord. orders d oid = Some ord \<longrightarrow> nonneg_quantities (orderItems ord))"

section \<open>Example data\<close>

text \<open>A shop with a phone (5 in stock) and a tablet (1 in stock), three users and two gateways.\<close>

definition ex_line :: "object_id \<Rightarrow> int \<Rightarrow> order_item" where
  "ex_line pid q = \<lparr> name = ''Gadget'', quantity = q, image_url = ''/images/gadget.png'',
                     price = 10, product = pid \<rparr>"

definition ex_body :: "order_item list \<Rightarrow> order_body" where
  "ex_body items = \<lparr> orderItems = items,
                      shippingAddress = \<lparr> street = ''1 Main Street'', city = ''Nairobi'',
                                          state = ''Nairobi'', postalCode = ''00100'',
                                          country = ''Kenya'' \<rparr>,
                      paymentMethod = ''card'', itemsPrice = 30, taxPrice = 0,
                      shippingPrice = 0, totalPrice = 30 \<rparr>"

definition ex_alice :: user_doc where
  "ex_alice = \<lparr> user_id = ''u1'', firstName = ''Alice'', lastName = ''Otieno'',
                 email = ''alice@example.com'', role = ''user'' \<rparr>"

definition ex_bob :: user_doc where
  "ex_bob = \<lparr> user_id = ''u2'', firstName = ''Bob'', lastName = ''Kamau'',
               email = ''bob@example.com'', role = ''user'' \<rparr>"

definition ex_admin :: user_doc where
  "ex_admin = \<lparr> user_id = ''u3'', firstName = ''Carol'', lastName = ''Wanjiru'',
                 email = ''carol@example.com'', role = ''admin'' \<rparr>"

definition ex_shop :: db where
  "ex_shop = \<lparr> users = [''u1'' \<mapsto> ex_alice, ''u2'' \<mapsto> ex_bob, ''u3'' \<mapsto> ex_admin],
               products = [''p1'' \<mapsto> \<lparr> product_name = ''Phone'', countInStock = 5 \<rparr>,
                            ''p2'' \<mapsto> \<lparr> product_name = ''Tablet'', countInStock = 1 \<rparr>],
               orders = Map.empty \<rparr>"

definition ex_stripe :: stripe where
  "ex_stripe = \<lparr> paymentIntents_create =
                   (\<lambda>amount currency. Inr \<lparr> intent_id = ''pi_1'', client_secret = ''pi_1_secret_9'' \<rparr>),
                 refunds_create =
                   (\<lambda>paymentIntentId amount. Inr \<lparr> refund_id = ''re_1'', refund_status = ''succeeded'' \<rparr>) \<rparr>"

definition ex_stripe_down :: stripe where
  "ex_stripe_down = \<lparr> paymentIntents_create = (\<lambda>amount currency. Inl ''card_declined''),
                      refunds_create = (\<lambda>paymentIntentId amount. Inl ''charge_already_refunded'') \<rparr>"

definition ex_order :: order where
  "ex_order = new_Order ''o1'' ex_alice (ex_body [ex_line ''p1'' 3])"

definition ex_shop_with :: "order \<Rightarrow> db" where
  "ex_shop_with ord = ex_shop\<lparr>orders := [''o1'' \<mapsto> ord]\<rparr>"

text \<open>The shop after Alice's order for three phones, and after that order's cancellation.\<close>

definition ex_placed :: db where
  "ex_placed = fst (addOrderItems ex_stripe ''o1'' ex_alice (ex_body [ex_line ''p1'' 3]) ex_shop)"

definition ex_canceled :: db where
  "ex_canceled = fst (cancelOrder 1700 ex_alice ''o1'' ex_placed)"

text \<open>The shop holding Alice's order, after an administrator has deleted Alice.\<close>

definition ex_orphaned :: db where
  "ex_orphaned = fst (deleteUser ''u1'' (ex_shop_with ex_order))"

section \<open>The loops\<close>

lemmas ex_defs = ex_line_def ex_body_def ex_shop_def ex_stripe_def ex_stripe_down_def
  ex_alice_def ex_bob_def ex_admin_def ex_order_def ex_shop_with_def

lemmas op_defs = addOrderItems_def createPaymentIntent_def processRefund_def new_Order_def
  string_get_def sendOrderConfirmationEmail_def sendOrderStatusUpdateEmail_def
  sendRefundConfirmationEmail_def getOrderById_def processOrderRefund_def cancelOrder_def
  updateOrderToPaid_def updateOrderToDelivered_def

lemma validateStock_find:
  "find (unavailable ps) items = Some item \<Longrightarrow>
   validateStock ps items =
     Some (case ps (product item) of
             None \<Rightarrow> NotFoundError (''Product not found: '' @ product item)
           | Some p \<Rightarrow> InsufficientStockError (''Insufficient stock for product: '' @ product_name p))"
  by (induction items) (auto simp: unavailable_def split: option.splits if_splits)

lemma validateStock_None:
  "validateStock ps items = None \<longleftrightarrow> (\<forall>item \<in> set items. \<not> unavailable ps item)"
  by (induction items) (auto simp: unavailable_def split: option.splits)

lemma find_unavailable:
  "\<exists>item \<in> set items. unavailable ps item \<Longrightarrow> \<exists>item. find (unavailable ps) items = Some item"
  by (cases "find (unavailable ps) items") (auto simp: find_None_iff)

lemma requested_Cons:
  "requested pid (item # items) =
     (if product item = pid then quantity item + requested pid items else requested pid items)"
  by (simp add: requested_def)

lemma requested_Nil: "requested pid [] = 0"
  by (simp add: requested_def)

lemma debitStock_completes:
  "\<forall>item \<in> set items. ps (product item) \<noteq> None \<Longrightarrow> snd (debitStock ps items) = None"
proof (induction items arbitrary: ps)
  case Nil
  show ?case by simp
next
  case (Cons item items)
  from Cons.prems obtain p where p: "ps (product item) = Some p" by auto
  let ?ps = "ps(product item \<mapsto> p\<lparr>countInStock := countInStock p - quantity item\<rparr>)"
  from Cons.prems have "\<forall>i \<in> set items. ?ps (product i) \<noteq> None" by auto
  from Cons.IH [OF this] have "snd (debitStock ?ps items) = None" .
  with p show ?case by simp
qed

lemma debitStock_apply:
  "\<forall>item \<in> set items. ps (product item) \<noteq> None \<Longrightarrow>
   fst (debitStock ps items) pid =
     map_option (\<lambda>p. p\<lparr>countInStock := countInStock p - requested pid items\<rparr>) (ps pid)"
proof (induction items arbitrary: ps)
  case Nil
  show ?case by (simp add: requested_Nil option.map_ident)
next
  case (Cons item items)
  from Cons.prems obtain p where p: "ps (product item) = Some p" by auto
  let ?ps = "ps(product item \<mapsto> p\<lparr>countInStock := countInStock p - quantity item\<rparr>)"
  from Cons.prems have "\<forall>i \<in> set items. ?ps (product i) \<noteq> None" by auto
  from Cons.IH [OF this] have
    "fst (debitStock ?ps items) pid =
       map_option (\<lambda>p. p\<lparr>countInStock := countInStock p - requested pid items\<rparr>) (?ps pid)" .
  with p show ?case
    by (simp add: requested_Cons diff_diff_eq)
qed

lemma restoreStock_apply:
  "restoreStock ps items pid =
     map_option (\<lambda>p. p\<lparr>countInStock := countInStock p + requested pid items\<rparr>) (ps pid)"
proof (induction items arbitrary: ps)
  case Nil
  show ?case by (simp add: requested_Nil option.map_ident)
next
  case (Cons item items)
  show ?case
    by (cases "ps (product item)") (auto simp: Cons.IH requested_Cons add.assoc)
qed

section \<open>The number model on known values\<close>

text \<open>
  The binary64 values of 0.1 and of 1/3, numbers that are their own nearest value, the
  first integer that binary64 cannot hold, and the cents the wrapper computes for some
  prices next to the integer nearest to the exact product.
\<close>

lemma binary64_known_values:
  "binary64 (1 / 10) = 3602879701896397 / 36028797018963968"
  "binary64 (1 / 3) = 6004799503160661 / 18014398509481984"
  "binary64 100 = 100"
  "binary64 (1 / 2) = 1 / 2"
  "binary64 (- (1 / 10)) = - (3602879701896397 / 36028797018963968)"
  "binary64 9007199254740993 = 9007199254740992"
  "binary64 (binary64 (1999 / 100)) = binary64 (1999 / 100)"
  by code_simp+

lemma minor_units_values:
  "Math_round (js_times (binary64 (1999 / 100)) 100) = 1999"
  "Math_round (js_times (binary64 (1255 / 1000)) 100) = 125"
  "Math_round (js_times (binary64 (1005 / 1000)) 100) = 100"
  "Math_round (1255 / 1000 * 100) = 126"
  "Math_round (1005 / 1000 * 100) = 101"
  "Math_round (1999 / 100 * 100) = 1999"
  by code_simp+

section \<open>What a successful call did\<close>

lemma placement_success:
  assumes "addOrderItems st newId u body d = (d', Inr r)"
  shows "\<exists>intent. paymentIntents_create st (Math_round (js_times (totalPrice body) 100)) ''usd'' = Inr intent \<and>
           resp_order r = (new_Order newId u body)\<lparr>paymentResult :=
                             \<lparr> pr_id = JSUndefined, pr_status = JSString ''pending'',
                               update_time = JSUndefined, email_address = JSUndefined \<rparr>\<rparr> \<and>
           clientSecret r = JSUndefined \<and>
           orders d' = (orders d)(newId \<mapsto> resp_order r) \<and>
           products d' = fst (debitStock (products d) (orderItems body))"
  using assms
  by (auto simp: addOrderItems_def createPaymentIntent_def string_get_def new_Order_def Let_def
      split: if_splits option.splits sum.splits prod.splits)

lemma refund_success:
  assumes "processOrderRefund st now oid d = (d1, Inr ord1)"
  shows "\<exists>ord r. orders d oid = Some ord \<and> isPaid ord \<and> \<not> isRefunded ord \<and>
           refunds_create st (pr_id (paymentResult ord)) (Math_round (js_times (totalPrice ord) 100)) = Inr r \<and>
           ord1 = ord\<lparr>isRefunded := True, refundedAt := Some now, orderStatus := Refunded,
                       refundResult := \<lparr> rr_id = JSString (refund_id r),
                                         rr_status = JSString (refund_status r) \<rparr>\<rparr> \<and>
           d1 = d\<lparr>products := restoreStock (products d) (orderItems ord),
                   orders := (orders d)(oid \<mapsto> ord1)\<rparr>"
  using assms
  by (auto simp: processOrderRefund_def processRefund_def sendRefundConfirmationEmail_def Let_def
      split: option.splits if_splits sum.splits)

section \<open>Stock under one line per product\<close>

text \<open>
  When no placement request has two lines for the same product and no quantity is
  negative, in the requests and in the stored orders, every \<open>countInStock\<close> stays
  non-negative along any sequence of placements, cancellations and refunds.
\<close>

lemma requested_absent: "pid \<notin> product ` set items \<Longrightarrow> requested pid items = 0"
  by (induction items) (auto simp: requested_Cons requested_Nil)

lemma requested_nonneg: "nonneg_quantities items \<Longrightarrow> 0 \<le> requested pid items"
  by (induction items) (auto simp: requested_Cons requested_Nil nonneg_quantities_def)

lemma requested_le_stock:
  "distinct (map product items) \<Longrightarrow> \<forall>item \<in> set items. \<not> unavailable ps item \<Longrightarrow>
   ps pid = Some p \<Longrightarrow> 0 \<le> countInStock p \<Longrightarrow> requested pid items \<le> countInStock p"
proof (induction items)
  case Nil
  then show ?case by (simp add: requested_Nil)
next
  case (Cons item items)
  show ?case
  proof (cases "product item = pid")
    case True
    with Cons.prems have "pid \<notin> product ` set items" by auto
    then have "requested pid items = 0" by (rule requested_absent)
    moreover from Cons.prems True have "quantity item \<le> countInStock p"
      by (simp add: unavailable_def)
    ultimately show ?thesis using True by (simp add: requested_Cons)
  next
    case False
    with Cons show ?thesis by (simp add: requested_Cons)
  qed
qed

lemma nonneg_quantities_copy:
  "nonneg_quantities (orderItems (new_Order newId u body)) = nonneg_quantities (orderItems body)"
  by (simp add: new_Order_def nonneg_quantities_def list_all_iff)

lemma place_stock:
  assumes "stock_nonneg d"
    and "distinct (map product (orderItems body))"
  shows "stock_nonneg (fst (addOrderItems st newId u body d))"
proof (cases "orderItems body = [] \<or> validateStock (products d) (orderItems body) \<noteq> None")
  case True
  with assms(1) show ?thesis by (auto simp: addOrderItems_def)
next
  case False
  then have v: "\<forall>item \<in> set (orderItems body). \<not> unavailable (products d) item"
    by (simp add: validateStock_None)
  then have ex: "\<forall>item \<in> set (orderItems body). products d (product item) \<noteq> None"
    by (auto simp: unavailable_def split: option.splits)
  have "products (fst (addOrderItems st newId u body d)) = fst (debitStock (products d) (orderItems body))"
    using False debitStock_completes [OF ex]
    by (auto simp: addOrderItems_def Let_def split: prod.splits sum.splits)
  then have "\<And>pid. products (fst (addOrderItems st newId u body d)) pid =
      map_option (\<lambda>p. p\<lparr>countInStock := countInStock p - requested pid (orderItems body)\<rparr>)
        (products d pid)"
    using debitStock_apply [OF ex] by simp
  then show ?thesis
    using assms requested_le_stock [OF assms(2) v]
    by (auto simp: stock_nonneg_def)
qed

lemma place_orders:
  assumes "orders_nonneg d"
    and "nonneg_quantities (orderItems body)"
  shows "orders_nonneg (fst (addOrderItems st newId u body d))"
proof (cases "addOrderItems st newId u body d")
  case (Pair d' res)
  show ?thesis
  proof (cases res)
    case (Inl e)
    with Pair have "orders d' = orders d"
      by (auto simp: addOrderItems_def Let_def split: if_splits option.splits prod.splits sum.splits)
    with assms(1) Pair show ?thesis by (simp add: orders_nonneg_def)
  next
    case (Inr r)
    from placement_success [OF Pair [unfolded Inr]] assms Pair show ?thesis
      by (auto simp: orders_nonneg_def nonneg_quantities_copy)
  qed
qed

lemma restock_stock:
  assumes "stock_nonneg d" and "nonneg_quantities items"
  shows "stock_nonneg (d\<lparr>products := restoreStock (products d) items\<rparr>)"
  using assms requested_nonneg [OF assms(2)]
  by (auto simp: stock_nonneg_def restoreStock_apply)

lemma cancel_inv:
  assumes "stock_nonneg d" and "orders_nonneg d"
  shows "stock_nonneg (fst (cancelOrder now u oid d)) \<and> orders_nonneg (fst (cancelOrder now u oid d))"
proof (cases "orders d oid")
  case None
  with assms show ?thesis by (simp add: cancelOrder_def)
next
  case (Some ord)
  with assms(2) have q: "nonneg_quantities (orderItems ord)" by (simp add: orders_nonneg_def)
  from restock_stock [OF assms(1) q] have
    "stock_nonneg (d\<lparr>products := restoreStock (products d) (orderItems ord)\<rparr>)" .
  then have "stock_nonneg (fst (cancelOrder now u oid d))"
    using Some assms(1) by (simp add: cancelOrder_def Let_def stock_nonneg_def)
  moreover have "orders_nonneg (fst (cancelOrder now u oid d))"
    using Some assms(2) q by (simp add: cancelOrder_def Let_def orders_nonneg_def)
  ultimately show ?thesis ..
qed

lemma refund_inv:
  assumes "stock_nonneg d" and "orders_nonneg d"
  shows "stock_nonneg (fst (processOrderRefund st now oid d)) \<and>
         orders_nonneg (fst (processOrderRefund st now oid d))"
proof (cases "processOrderRefund st now oid d")
  case (Pair d1 res)
  show ?thesis
  proof (cases res)
    case (Inl e)
    with Pair have "d1 = d"
      by (auto simp: processOrderRefund_def Let_def split: option.splits if_splits sum.splits)
    with assms Pair show ?thesis by simp
  next
    case (Inr ord1)
    from refund_success [OF Pair [unfolded Inr]] obtain ord and r :: refund where
      o: "orders d oid = Some ord" and
      o1: "ord1 = ord\<lparr>isRefunded := True, refundedAt := Some now, orderStatus := Refunded,
                       refundResult := \<lparr> rr_id = JSString (refund_id r),
                                         rr_status = JSString (refund_status r) \<rparr>\<rparr>" and
      d1: "d1 = d\<lparr>products := restoreStock (products d) (orderItems ord),
                   orders := (orders d)(oid \<mapsto> ord1)\<rparr>"
      by blast
    from o assms(2) have q: "nonneg_quantities (orderItems ord)" by (simp add: orders_nonneg_def)
    from restock_stock [OF assms(1) q] d1 have "stock_nonneg d1"
      by (simp add: stock_nonneg_def)
    moreover from d1 o1 q assms(2) have "orders_nonneg d1"
      by (simp add: orders_nonneg_def)
    ultimately show ?thesis using Pair by simp
  qed
qed

lemma handle_inv:
  assumes "stock_nonneg d" and "orders_nonneg d" and "one_line_per_product r"
  shows "stock_nonneg (handle d r) \<and> orders_nonneg (handle d r)"
proof (cases r)
  case (Place st newId u body)
  with assms place_stock [of d body st newId u] place_orders [of d body st newId u]
  show ?thesis by simp
next
  case (Cancel now u oid)
  with cancel_inv [OF assms(1,2)] show ?thesis by simp
next
  case (Refund st now oid)
  with refund_inv [OF assms(1,2)] show ?thesis by simp
qed

lemma stock_nonneg_preserved:
  "stock_nonneg d \<Longrightarrow> orders_nonneg d \<Longrightarrow> list_all one_line_per_product rs \<Longrightarrow>
   stock_nonneg (foldl handle d rs) \<and> orders_nonneg (foldl handle d rs)"
proof (induction rs arbitrary: d)
  case Nil
  then show ?case by simp
next
  case (Cons r rs)
  from Cons.prems handle_inv [of d r] have "stock_nonneg (handle d r) \<and> orders_nonneg (handle d r)"
    by simp
  with Cons.IH [of "handle d r"] Cons.prems show ?case by simp
qed

section \<open>The example data, evaluated\<close>

lemma ex_order_fields:
  "orderStatus ex_order = Placed"
  "orderItems ex_order = [ex_line ''p1'' 3]"
  "user ex_order = ''u1''"
  "isPaid ex_order = False"
  "isRefunded ex_order = False"
  "totalPrice ex_order = 30"
  "pr_id (paymentResult ex_order) = JSUndefined"
  by (simp_all add: ex_order_def new_Order_def ex_body_def ex_line_def ex_alice_def)

lemma ex_placed_eq:
  "ex_placed = \<lparr> users = [''u1'' \<mapsto> ex_alice, ''u2'' \<mapsto> ex_bob, ''u3'' \<mapsto> ex_admin],
                 products = [''p1'' \<mapsto> \<lparr> product_name = ''Phone'', countInStock = 2 \<rparr>,
                             ''p2'' \<mapsto> \<lparr> product_name = ''Tablet'', countInStock = 1 \<rparr>],
                 orders = [''o1'' \<mapsto> ex_order\<lparr>paymentResult :=
                             \<lparr> pr_id = JSUndefined, pr_status = JSString ''pending'',
                               update_time = JSUndefined, email_address = JSUndefined \<rparr>\<rparr>] \<rparr>"
  by (simp add: ex_placed_def ex_defs op_defs Let_def fun_upd_twist)

lemma ex_canceled_order:
  "orders ex_canceled ''o1'' =
     Some (ex_order\<lparr>paymentResult :=
                       \<lparr> pr_id = JSUndefined, pr_status = JSString ''pending'',
                         update_time = JSUndefined, email_address = JSUndefined \<rparr>,
                    orderStatus := Canceled, canceledAt := Some 1700\<rparr>)"
  by (simp add: ex_canceled_def ex_placed_eq cancelOrder_def sendOrderStatusUpdateEmail_def
      Let_def ex_order_fields)

lemma ex_canceled_stock:
  "products ex_canceled ''p1'' = Some \<lparr> product_name = ''Phone'', countInStock = 5 \<rparr>"
  by (simp add: ex_canceled_def ex_placed_eq cancelOrder_def sendOrderStatusUpdateEmail_def
      Let_def ex_order_fields ex_line_def)

section \<open>Lookup of an order whose owner exists\<close>

text \<open>
  When the owner's document is in the store under the order's reference, the lookup
  answers \<open>ForbiddenError\<close> to a caller who is neither the owner nor an administrator,
  and the order to the owner and to any administrator.
\<close>

lemma lookup_when_owner_resolves:
  assumes "orders d oid = Some ord"
    and "users d (user ord) = Some owner"
    and "user_id owner = user ord"
  shows "(user ord \<noteq> user_id u \<and> role u \<noteq> ''admin'' \<longrightarrow>
            getOrderById u oid d = Inl (ForbiddenError ''Not authorized to view this order'')) \<and>
         (user ord = user_id u \<or> role u = ''admin'' \<longrightarrow>
            (\<exists>po. getOrderById u oid d = Inr po \<and> po_order po = ord))"
  using assms by (auto simp: getOrderById_def populate_user_def)

lemma lookup_examples:
  "getOrderById ex_bob ''o1'' (ex_shop_with ex_order)
     = Inl (ForbiddenError ''Not authorized to view this order'')"
  "map_sum id po_order (getOrderById ex_alice ''o1'' (ex_shop_with ex_order)) = Inr ex_order"
  "map_sum id po_order (getOrderById ex_admin ''o1'' (ex_shop_with ex_order)) = Inr ex_order"
  by (simp_all add: getOrderById_def populate_user_def ex_shop_with_def ex_shop_def ex_order_fields
      ex_alice_def ex_bob_def ex_admin_def)

section \<open>Order placement: rejection and payment failure\<close>

text \<open>
  C2. When some requested item refers to a product that does not exist or asks for more
  than the product's \<open>countInStock\<close>, the placement fails and the database is the one it
  started from: no stock is debited.  The error is that of the first such item in
  request order: \<open>NotFoundError\<close> when its product is missing, \<open>InsufficientStockError\<close>
  otherwise.
\<close>

theorem placement_rejects_before_any_debit:
  assumes "\<exists>item \<in> set (orderItems body). unavailable (products d) item"
  shows "\<exists>item. find (unavailable (products d)) (orderItems body) = Some item \<and>
           addOrderItems st newId u body d =
             (d, Inl (case products d (product item) of
                        None \<Rightarrow> NotFoundError (''Product not found: '' @ product item)
                      | Some p \<Rightarrow>
                          InsufficientStockError
                            (''Insufficient stock for product: '' @ product_name p)))"
proof -
  from assms obtain item where f: "find (unavailable (products d)) (orderItems body) = Some item"
    using find_unavailable by blast
  from assms have ne: "orderItems body \<noteq> []" by auto
  from validateStock_find [OF f] ne have
    "addOrderItems st newId u body d =
       (d, Inl (case products d (product item) of
                  None \<Rightarrow> NotFoundError (''Product not found: '' @ product item)
                | Some p \<Rightarrow>
                    InsufficientStockError
                      (''Insufficient stock for product: '' @ product_name p)))"
    by (simp add: addOrderItems_def)
  with f show ?thesis by blast
qed

theorem placement_rejects_before_any_debit_witness:
  "(\<exists>item \<in> set (orderItems (ex_body [ex_line ''p1'' 2, ex_line ''p2'' 3])).
      unavailable (products ex_shop) item) \<and>
   addOrderItems ex_stripe ''o1'' ex_alice (ex_body [ex_line ''p1'' 2, ex_line ''p2'' 3]) ex_shop =
     (ex_shop, Inl (InsufficientStockError ''Insufficient stock for product: Tablet'')) \<and>
   addOrderItems ex_stripe ''o1'' ex_alice (ex_body [ex_line ''p1'' 2, ex_line ''p9'' 1]) ex_shop =
     (ex_shop, Inl (NotFoundError ''Product not found: p9''))"
proof -
  have h1: "\<exists>item \<in> set (orderItems (ex_body [ex_line ''p1'' 2, ex_line ''p2'' 3])).
              unavailable (products ex_shop) item"
    by (simp add: ex_defs unavailable_def)
  have h2: "\<exists>item \<in> set (orderItems (ex_body [ex_line ''p1'' 2, ex_line ''p9'' 1])).
              unavailable (products ex_shop) item"
    by (simp add: ex_defs unavailable_def)
  from placement_rejects_before_any_debit [OF h1, of ex_stripe "''o1''" ex_alice]
  have c1: "addOrderItems ex_stripe ''o1'' ex_alice (ex_body [ex_line ''p1'' 2, ex_line ''p2'' 3]) ex_shop =
     (ex_shop, Inl (InsufficientStockError ''Insufficient stock for product: Tablet''))"
    by (simp add: ex_defs unavailable_def)
  from placement_rejects_before_any_debit [OF h2, of ex_stripe "''o1''" ex_alice]
  have c2: "addOrderItems ex_stripe ''o1'' ex_alice (ex_body [ex_line ''p1'' 2, ex_line ''p9'' 1]) ex_shop =
     (ex_shop, Inl (NotFoundError ''Product not found: p9''))"
    by (simp add: ex_defs unavailable_def)
  from h1 c1 c2 show ?thesis by blast
qed

text \<open>
  C5. When the request is not empty, every item passes the stock check and the gateway's
  payment-intent call throws, the placement fails with \<open>PaymentError\<close> carrying the
  gateway's message, no order is stored, and every product keeps the debit: its
  \<open>countInStock\<close> is the old one less the quantities requested of it.
\<close>

theorem placement_keeps_debits_on_payment_failure:
  assumes items: "orderItems body \<noteq> []"
    and valid: "\<forall>item \<in> set (orderItems body). \<not> unavailable (products d) item"
    and gateway: "paymentIntents_create st (Math_round (js_times (totalPrice body) 100)) ''usd'' = Inl err"
  shows "\<exists>d'. addOrderItems st newId u body d = (d', Inl (PaymentError err)) \<and>
           orders d' = orders d \<and>
           (\<forall>pid. products d' pid =
              map_option (\<lambda>p. p\<lparr>countInStock := countInStock p - requested pid (orderItems body)\<rparr>)
                (products d pid))"
proof -
  from valid have v: "validateStock (products d) (orderItems body) = None"
    by (simp add: validateStock_None)
  from valid have ex: "\<forall>item \<in> set (orderItems body). products d (product item) \<noteq> None"
    by (auto simp: unavailable_def split: option.splits)
  obtain ps failure where deb: "debitStock (products d) (orderItems body) = (ps, failure)"
    by (cases "debitStock (products d) (orderItems body)")
  from debitStock_completes [OF ex] deb have nofail: "failure = None" by simp
  from debitStock_apply [OF ex] deb have ps:
    "\<And>pid. ps pid =
       map_option (\<lambda>p. p\<lparr>countInStock := countInStock p - requested pid (orderItems body)\<rparr>)
         (products d pid)"
    by simp
  from gateway have cpi: "createPaymentIntent st (totalPrice body) ''usd'' = Inl err"
    by (simp add: createPaymentIntent_def)
  from items v deb nofail cpi have
    "addOrderItems st newId u body d = (d\<lparr>products := ps\<rparr>, Inl (PaymentError err))"
    by (simp add: addOrderItems_def)
  with ps show ?thesis by simp
qed

theorem placement_keeps_debits_on_payment_failure_witness:
  "orderItems (ex_body [ex_line ''p1'' 3]) \<noteq> [] \<and>
   \<not> unavailable (products ex_shop) (ex_line ''p1'' 3) \<and>
   paymentIntents_create ex_stripe_down (Math_round (js_times (totalPrice (ex_body [ex_line ''p1'' 3])) 100)) ''usd''
     = Inl ''card_declined'' \<and>
   snd (addOrderItems ex_stripe_down ''o1'' ex_alice (ex_body [ex_line ''p1'' 3]) ex_shop)
     = Inl (PaymentError ''card_declined'') \<and>
   orders (fst (addOrderItems ex_stripe_down ''o1'' ex_alice (ex_body [ex_line ''p1'' 3]) ex_shop))
     = Map.empty \<and>
   products (fst (addOrderItems ex_stripe_down ''o1'' ex_alice (ex_body [ex_line ''p1'' 3]) ex_shop)) ''p1''
     = Some \<lparr> product_name = ''Phone'', countInStock = 2 \<rparr>"
proof -
  let ?body = "ex_body [ex_line ''p1'' 3]"
  have h1: "orderItems ?body \<noteq> []"
    by (simp add: ex_defs)
  have h2: "\<forall>item \<in> set (orderItems ?body). \<not> unavailable (products ex_shop) item"
    by (simp add: ex_defs unavailable_def)
  have h3: "paymentIntents_create ex_stripe_down (Math_round (js_times (totalPrice ?body) 100)) ''usd''
              = Inl ''card_declined''"
    by (simp add: ex_defs)
  from placement_keeps_debits_on_payment_failure [OF h1 h2 h3, of "''o1''" ex_alice]
  obtain d' where r: "addOrderItems ex_stripe_down ''o1'' ex_alice ?body ex_shop
                        = (d', Inl (PaymentError ''card_declined''))"
    and o: "orders d' = orders ex_shop"
    and p: "products d' ''p1'' =
              map_option (\<lambda>p. p\<lparr>countInStock := countInStock p - requested ''p1'' (orderItems ?body)\<rparr>)
                (products ex_shop ''p1'')"
    by blast
  from p have "products d' ''p1'' = Some \<lparr> product_name = ''Phone'', countInStock = 2 \<rparr>"
    by (simp add: ex_defs requested_def)
  moreover from o have "orders d' = Map.empty"
    by (simp add: ex_defs)
  moreover have "\<not> unavailable (products ex_shop) (ex_line ''p1'' 3)"
    by (simp add: ex_defs unavailable_def)
  ultimately show ?thesis using h1 h3 r by simp
qed

section \<open>Order placement: what the code does against the specification\<close>

text \<open>
  C1. The specification asks that no sequence of placements, cancellations and refunds
  drives a \<open>countInStock\<close> below zero.  The validation loop compares every line with
  the stock as it was before the request, so two lines for the same product pass one by
  one and are then both debited: from a stock of 5 phones, a request with two lines of
  3 phones is accepted and leaves a stock of -1.
\<close>

theorem duplicate_lines_oversell:
  "products ex_shop ''p1'' = Some \<lparr> product_name = ''Phone'', countInStock = 5 \<rparr> \<and>
   validateStock (products ex_shop) [ex_line ''p1'' 3, ex_line ''p1'' 3] = None \<and>
   \<not> isl (snd (addOrderItems ex_stripe ''o1'' ex_alice
                  (ex_body [ex_line ''p1'' 3, ex_line ''p1'' 3]) ex_shop)) \<and>
   products (fst (addOrderItems ex_stripe ''o1'' ex_alice
                    (ex_body [ex_line ''p1'' 3, ex_line ''p1'' 3]) ex_shop)) ''p1''
     = Some \<lparr> product_name = ''Phone'', countInStock = - 1 \<rparr>"
  by (simp add: ex_defs op_defs Let_def)

text \<open>
  C6. The specification asks that a successful placement stores the gateway's
  authorization id in \<open>paymentResult\<close> and returns the client secret.
  \<^verbatim>\<open>createPaymentIntent\<close> returns the client secret alone, a string, and the controller
  reads \<^verbatim>\<open>.id\<close> and \<^verbatim>\<open>.client_secret\<close> of that string: with an intent \<^verbatim>\<open>pi_1\<close> whose
  secret is \<^verbatim>\<open>pi_1_secret_9\<close>, the stored order is \<open>Placed\<close>, unpaid and
  \<^verbatim>\<open>pending\<close>, but its authorization id and the returned secret are both
  \<^verbatim>\<open>undefined\<close>.
\<close>

theorem placement_drops_intent_id_and_secret:
  "paymentIntents_create ex_stripe (Math_round (js_times (totalPrice (ex_body [ex_line ''p1'' 3])) 100)) ''usd''
     = Inr \<lparr> intent_id = ''pi_1'', client_secret = ''pi_1_secret_9'' \<rparr> \<and>
   snd (addOrderItems ex_stripe ''o1'' ex_alice (ex_body [ex_line ''p1'' 3]) ex_shop)
     = Inr \<lparr> resp_order = ex_order\<lparr>paymentResult :=
                               \<lparr> pr_id = JSUndefined, pr_status = JSString ''pending'',
                                 update_time = JSUndefined, email_address = JSUndefined \<rparr>\<rparr>,
              clientSecret = JSUndefined \<rparr> \<and>
   orderStatus ex_order = Placed \<and> isPaid ex_order = False"
  by (simp add: ex_defs op_defs Let_def)

section \<open>Refund\<close>

text \<open>
  C3. A refund of an order that is not paid, or is already refunded, fails with
  \<open>InvalidTransitionError\<close> ("Order cannot be refunded") and returns the database it
  was given.  After a refund that succeeded, the stored order carries the refund result
  of that gateway call, and a second refund of the same order, with whatever gateway
  and at whatever time, fails in that way and changes nothing: the refund result is
  written once.
\<close>

theorem refund_guard_is_idempotent:
  "(orders d oid = Some ord \<and> (\<not> isPaid ord \<or> isRefunded ord) \<longrightarrow>
      processOrderRefund st now oid d
        = (d, Inl (InvalidTransitionError ''Order cannot be refunded''))) \<and>
   (processOrderRefund st now oid d = (d1, Inr ord1) \<longrightarrow>
      orders d1 oid = Some ord1 \<and>
      (\<exists>ord0 r. orders d oid = Some ord0 \<and>
         refunds_create st (pr_id (paymentResult ord0)) (Math_round (js_times (totalPrice ord0) 100)) = Inr r \<and>
         refundResult ord1 = \<lparr> rr_id = JSString (refund_id r),
                                rr_status = JSString (refund_status r) \<rparr>) \<and>
      processOrderRefund st' now' oid d1
        = (d1, Inl (InvalidTransitionError ''Order cannot be refunded'')))"
proof (intro conjI impI)
  assume "orders d oid = Some ord \<and> (\<not> isPaid ord \<or> isRefunded ord)"
  then show "processOrderRefund st now oid d
               = (d, Inl (InvalidTransitionError ''Order cannot be refunded''))"
    by (auto simp: processOrderRefund_def)
next
  assume ok: "processOrderRefund st now oid d = (d1, Inr ord1)"
  from refund_success [OF ok] obtain ord0 r where
    o: "orders d oid = Some ord0" and
    g: "refunds_create st (pr_id (paymentResult ord0)) (Math_round (js_times (totalPrice ord0) 100)) = Inr r" and
    o1: "ord1 = ord0\<lparr>isRefunded := True, refundedAt := Some now, orderStatus := Refunded,
                      refundResult := \<lparr> rr_id = JSString (refund_id r),
                                        rr_status = JSString (refund_status r) \<rparr>\<rparr>" and
    d1: "d1 = d\<lparr>products := restoreStock (products d) (orderItems ord0),
                 orders := (orders d)(oid \<mapsto> ord1)\<rparr>"
    by blast
  from d1 show stored: "orders d1 oid = Some ord1" by simp
  from o g o1 show "\<exists>ord0 r. orders d oid = Some ord0 \<and>
         refunds_create st (pr_id (paymentResult ord0)) (Math_round (js_times (totalPrice ord0) 100)) = Inr r \<and>
         refundResult ord1 = \<lparr> rr_id = JSString (refund_id r),
                                rr_status = JSString (refund_status r) \<rparr>"
    by simp
  from o1 have "isRefunded ord1" by simp
  with stored show "processOrderRefund st' now' oid d1
                      = (d1, Inl (InvalidTransitionError ''Order cannot be refunded''))"
    by (simp add: processOrderRefund_def)
qed

theorem refund_guard_is_idempotent_witness:
  "orders (ex_shop_with ex_order) ''o1'' = Some ex_order \<and> isPaid ex_order = False \<and>
   processOrderRefund ex_stripe 1900 ''o1'' (ex_shop_with ex_order)
     = (ex_shop_with ex_order, Inl (InvalidTransitionError ''Order cannot be refunded'')) \<and>
   \<not> isl (snd (processOrderRefund ex_stripe 1900 ''o1'' (ex_shop_with (ex_order\<lparr>isPaid := True\<rparr>)))) \<and>
   snd (processOrderRefund ex_stripe_down 2000 ''o1''
          (fst (processOrderRefund ex_stripe 1900 ''o1'' (ex_shop_with (ex_order\<lparr>isPaid := True\<rparr>)))))
     = Inl (InvalidTransitionError ''Order cannot be refunded'') \<and>
   map_option refundResult
     (orders (fst (processOrderRefund ex_stripe_down 2000 ''o1''
        (fst (processOrderRefund ex_stripe 1900 ''o1'' (ex_shop_with (ex_order\<lparr>isPaid := True\<rparr>)))))) ''o1'')
     = Some \<lparr> rr_id = JSString ''re_1'', rr_status = JSString ''succeeded'' \<rparr>"
proof -
  let ?paid = "ex_order\<lparr>isPaid := True\<rparr>"
  let ?refunded = "?paid\<lparr>isRefunded := True, refundedAt := Some 1900, orderStatus := Refunded,
                          refundResult := \<lparr> rr_id = JSString ''re_1'',
                                            rr_status = JSString ''succeeded'' \<rparr>\<rparr>"
  have h1: "orders (ex_shop_with ex_order) ''o1'' = Some ex_order \<and>
            (\<not> isPaid ex_order \<or> isRefunded ex_order)"
    by (simp add: ex_shop_with_def ex_order_fields)
  from refund_guard_is_idempotent [of "ex_shop_with ex_order" "''o1''" ex_order ex_stripe 1900] h1
  have c1: "processOrderRefund ex_stripe 1900 ''o1'' (ex_shop_with ex_order)
              = (ex_shop_with ex_order, Inl (InvalidTransitionError ''Order cannot be refunded''))"
    by blast
  obtain d1 where first: "processOrderRefund ex_stripe 1900 ''o1'' (ex_shop_with ?paid)
                            = (d1, Inr ?refunded)"
    by (simp add: processOrderRefund_def processRefund_def sendRefundConfirmationEmail_def
        Let_def ex_shop_with_def ex_stripe_def ex_order_fields)
  from refund_guard_is_idempotent
         [of "ex_shop_with ?paid" "''o1''" ex_order ex_stripe 1900 d1 ?refunded ex_stripe_down 2000]
       first
  have stored: "orders d1 ''o1'' = Some ?refunded"
    and second: "processOrderRefund ex_stripe_down 2000 ''o1'' d1
                   = (d1, Inl (InvalidTransitionError ''Order cannot be refunded''))"
    by blast+
  from h1 c1 first stored second show ?thesis
    by (simp add: ex_order_fields)
qed

text \<open>
  C4. When an order is paid and not refunded and the gateway's refund call throws, the
  refund fails with \<open>PaymentError\<close>, whose message wraps the gateway's, and the
  database (the order and every product) is the one the call was given.
\<close>

theorem refund_gateway_failure_leaves_state:
  assumes "orders d oid = Some ord"
    and "isPaid ord" and "\<not> isRefunded ord"
    and "refunds_create st (pr_id (paymentResult ord)) (Math_round (js_times (totalPrice ord) 100)) = Inl err"
  shows "processOrderRefund st now oid d
           = (d, Inl (PaymentError (''Refund processing failed: '' @ err)))"
  using assms by (simp add: processOrderRefund_def processRefund_def)

theorem refund_gateway_failure_leaves_state_witness:
  "orders (ex_shop_with (ex_order\<lparr>isPaid := True\<rparr>)) ''o1'' = Some (ex_order\<lparr>isPaid := True\<rparr>) \<and>
   isPaid (ex_order\<lparr>isPaid := True\<rparr>) \<and> isRefunded (ex_order\<lparr>isPaid := True\<rparr>) = False \<and>
   refunds_create ex_stripe_down (pr_id (paymentResult (ex_order\<lparr>isPaid := True\<rparr>)))
       (Math_round (js_times (totalPrice (ex_order\<lparr>isPaid := True\<rparr>)) 100))
     = Inl ''charge_already_refunded'' \<and>
   processOrderRefund ex_stripe_down 1900 ''o1'' (ex_shop_with (ex_order\<lparr>isPaid := True\<rparr>))
     = (ex_shop_with (ex_order\<lparr>isPaid := True\<rparr>),
        Inl (PaymentError ''Refund processing failed: charge_already_refunded''))"
proof -
  let ?paid = "ex_order\<lparr>isPaid := True\<rparr>"
  have h1: "orders (ex_shop_with ?paid) ''o1'' = Some ?paid"
    by (simp add: ex_shop_with_def)
  have h2: "isPaid ?paid"
    by simp
  have h3: "\<not> isRefunded ?paid"
    by (simp add: ex_order_fields)
  have h4: "refunds_create ex_stripe_down (pr_id (paymentResult ?paid))
              (Math_round (js_times (totalPrice ?paid) 100)) = Inl ''charge_already_refunded''"
    by (simp add: ex_stripe_down_def)
  from refund_gateway_failure_leaves_state [OF h1 h2 h3 h4, of 1900]
  have "processOrderRefund ex_stripe_down 1900 ''o1'' (ex_shop_with ?paid)
          = (ex_shop_with ?paid, Inl (PaymentError ''Refund processing failed: charge_already_refunded''))"
    by simp
  with h1 h2 h3 h4 show ?thesis by simp
qed

section \<open>Cancel\<close>

text \<open>
  C8. For an order that exists: when its status is \<open>Shipped\<close> or \<open>Delivered\<close> the
  cancellation fails with \<open>InvalidTransitionError\<close> and the database is unchanged;
  otherwise every product gains the quantities the order's items hold of it, and the
  order is stored with status \<open>Canceled\<close> and \<open>canceledAt\<close> the current time.
\<close>

theorem cancel_guard_and_restock:
  assumes "orders d oid = Some ord"
  shows "(orderStatus ord = Shipped \<or> orderStatus ord = Delivered \<longrightarrow>
            cancelOrder now u oid d = (d, Inl (InvalidTransitionError ''Order cannot be canceled''))) \<and>
         (orderStatus ord \<noteq> Shipped \<and> orderStatus ord \<noteq> Delivered \<longrightarrow>
            (\<exists>d'. cancelOrder now u oid d =
                     (d', Inr (ord\<lparr>orderStatus := Canceled, canceledAt := Some now\<rparr>)) \<and>
                   orders d' = (orders d)(oid \<mapsto> ord\<lparr>orderStatus := Canceled, canceledAt := Some now\<rparr>) \<and>
                   (\<forall>pid. products d' pid =
                      map_option (\<lambda>p. p\<lparr>countInStock := countInStock p + requested pid (orderItems ord)\<rparr>)
                        (products d pid))))"
  using assms
  by (simp add: cancelOrder_def sendOrderStatusUpdateEmail_def restoreStock_apply Let_def)

theorem cancel_guard_and_restock_witness:
  "orders (ex_shop_with (ex_order\<lparr>orderStatus := Delivered\<rparr>)) ''o1''
     = Some (ex_order\<lparr>orderStatus := Delivered\<rparr>) \<and>
   cancelOrder 1700 ex_admin ''o1'' (ex_shop_with (ex_order\<lparr>orderStatus := Delivered\<rparr>))
     = (ex_shop_with (ex_order\<lparr>orderStatus := Delivered\<rparr>),
        Inl (InvalidTransitionError ''Order cannot be canceled'')) \<and>
   orders (ex_shop_with ex_order) ''o1'' = Some ex_order \<and>
   orderStatus ex_order = Placed \<and>
   snd (cancelOrder 1700 ex_admin ''o1'' (ex_shop_with ex_order))
     = Inr (ex_order\<lparr>orderStatus := Canceled, canceledAt := Some 1700\<rparr>) \<and>
   products (fst (cancelOrder 1700 ex_admin ''o1'' (ex_shop_with ex_order))) ''p1''
     = Some \<lparr> product_name = ''Phone'', countInStock = 8 \<rparr> \<and>
   products (fst (cancelOrder 1700 ex_admin ''o1'' (ex_shop_with ex_order))) ''p2''
     = Some \<lparr> product_name = ''Tablet'', countInStock = 1 \<rparr>"
proof -
  let ?delivered = "ex_order\<lparr>orderStatus := Delivered\<rparr>"
  have h1: "orders (ex_shop_with ?delivered) ''o1'' = Some ?delivered"
    by (simp add: ex_shop_with_def)
  have s1: "orderStatus ?delivered = Delivered"
    by simp
  from cancel_guard_and_restock [OF h1, of 1700 ex_admin] s1
  have c1: "cancelOrder 1700 ex_admin ''o1'' (ex_shop_with ?delivered)
              = (ex_shop_with ?delivered, Inl (InvalidTransitionError ''Order cannot be canceled''))"
    by simp
  have h2: "orders (ex_shop_with ex_order) ''o1'' = Some ex_order"
    by (simp add: ex_shop_with_def)
  have s2: "orderStatus ex_order = Placed"
    by (simp add: ex_order_def new_Order_def)
  have items: "orderItems ex_order = [ex_line ''p1'' 3]"
    by (simp add: ex_order_def new_Order_def ex_body_def ex_line_def)
  from cancel_guard_and_restock [OF h2, of 1700 ex_admin] s2
  obtain d' where r: "cancelOrder 1700 ex_admin ''o1'' (ex_shop_with ex_order)
                        = (d', Inr (ex_order\<lparr>orderStatus := Canceled, canceledAt := Some 1700\<rparr>))"
    and p: "\<And>pid. products d' pid =
              map_option (\<lambda>p. p\<lparr>countInStock := countInStock p + requested pid (orderItems ex_order)\<rparr>)
                (products (ex_shop_with ex_order) pid)"
    by auto
  from p [of "''p1''"] items
  have p1: "products d' ''p1'' = Some \<lparr> product_name = ''Phone'', countInStock = 8 \<rparr>"
    by (simp add: ex_shop_with_def ex_shop_def ex_line_def requested_def)
  from p [of "''p2''"] items
  have p2: "products d' ''p2'' = Some \<lparr> product_name = ''Tablet'', countInStock = 1 \<rparr>"
    by (simp add: ex_shop_with_def ex_shop_def ex_line_def requested_def)
  from h1 c1 h2 s2 r p1 p2 show ?thesis by simp
qed

text \<open>
  C10. Cancelling an order whose status is already \<open>Canceled\<close> or \<open>Refunded\<close> succeeds
  and credits every product with the order's quantities once more.  In the example, a
  stock of 5 phones is 2 after the order, 5 after the first cancellation and 8 after
  the second.
\<close>

theorem cancel_again_credits_again:
  assumes "orders d oid = Some ord"
    and "orderStatus ord = Canceled \<or> orderStatus ord = Refunded"
  shows "\<exists>d'. cancelOrder now u oid d =
                 (d', Inr (ord\<lparr>orderStatus := Canceled, canceledAt := Some now\<rparr>)) \<and>
               (\<forall>pid. products d' pid =
                  map_option (\<lambda>p. p\<lparr>countInStock := countInStock p + requested pid (orderItems ord)\<rparr>)
                    (products d pid))"
  using assms
  by (auto simp: cancelOrder_def sendOrderStatusUpdateEmail_def restoreStock_apply Let_def)

theorem cancel_again_credits_again_witness:
  "products ex_shop ''p1'' = Some \<lparr> product_name = ''Phone'', countInStock = 5 \<rparr> \<and>
   products ex_placed ''p1'' = Some \<lparr> product_name = ''Phone'', countInStock = 2 \<rparr> \<and>
   products ex_canceled ''p1'' = Some \<lparr> product_name = ''Phone'', countInStock = 5 \<rparr> \<and>
   map_option orderStatus (orders ex_canceled ''o1'') = Some Canceled \<and>
   \<not> isl (snd (cancelOrder 1800 ex_alice ''o1'' ex_canceled)) \<and>
   products (fst (cancelOrder 1800 ex_alice ''o1'' ex_canceled)) ''p1''
     = Some \<lparr> product_name = ''Phone'', countInStock = 8 \<rparr>"
proof -
  let ?ord = "ex_order\<lparr>paymentResult :=
                         \<lparr> pr_id = JSUndefined, pr_status = JSString ''pending'',
                           update_time = JSUndefined, email_address = JSUndefined \<rparr>,
                       orderStatus := Canceled, canceledAt := Some 1700\<rparr>"
  have h1: "orders ex_canceled ''o1'' = Some ?ord"
    by (rule ex_canceled_order)
  have h2: "orderStatus ?ord = Canceled \<or> orderStatus ?ord = Refunded"
    by simp
  from cancel_again_credits_again [OF h1 h2, of 1800 ex_alice]
  obtain d' where r: "cancelOrder 1800 ex_alice ''o1'' ex_canceled
                        = (d', Inr (?ord\<lparr>orderStatus := Canceled, canceledAt := Some 1800\<rparr>))"
    and p: "\<And>pid. products d' pid =
              map_option (\<lambda>p. p\<lparr>countInStock := countInStock p + requested pid (orderItems ?ord)\<rparr>)
                (products ex_canceled pid)"
    by blast
  from p [of "''p1''"]
  have p1: "products d' ''p1'' = Some \<lparr> product_name = ''Phone'', countInStock = 8 \<rparr>"
    by (simp add: ex_canceled_stock ex_order_fields ex_line_def requested_def)
  have s0: "products ex_shop ''p1'' = Some \<lparr> product_name = ''Phone'', countInStock = 5 \<rparr>"
    by (simp add: ex_shop_def)
  have s1: "products ex_placed ''p1'' = Some \<lparr> product_name = ''Phone'', countInStock = 2 \<rparr>"
    by (simp add: ex_placed_eq)
  from s0 s1 ex_canceled_stock h1 r p1 show ?thesis by simp
qed

section \<open>Minor units at the gateway\<close>

text \<open>
  C7. The specification asks that the amount sent to the gateway is the decimal amount
  times 100, rounded, with no drift.  Both wrappers send \<^verbatim>\<open>Math.round(amount * 100)\<close>,
  where the product is a binary64 product.  For 19.99 they send 1999.  For 1.255 the
  number read is just below 1.255 and its product with 100 is the binary64 value just
  below 125.5, so they send 125, while 1.255 times 100 is 125.5 and rounds to 126.
\<close>

theorem minor_units_drift:
  "createPaymentIntent st (binary64 (1999 / 100)) currency =
     (case paymentIntents_create st 1999 currency of
        Inl err \<Rightarrow> Inl err | Inr paymentIntent \<Rightarrow> Inr (client_secret paymentIntent)) \<and>
   createPaymentIntent st (binary64 (1255 / 1000)) currency =
     (case paymentIntents_create st 125 currency of
        Inl err \<Rightarrow> Inl err | Inr paymentIntent \<Rightarrow> Inr (client_secret paymentIntent)) \<and>
   processRefund st paymentIntentId (binary64 (1255 / 1000)) =
     refunds_create st paymentIntentId 125 \<and>
   Math_round (1255 / 1000 * 100) = 126"
proof -
  have a: "Math_round (js_times (binary64 (1999 / 100)) 100) = 1999"
    by code_simp
  have b: "Math_round (js_times (binary64 (1255 / 1000)) 100) = 125"
    by code_simp
  have c: "Math_round (1255 / 1000 * 100) = 126"
    by code_simp
  have r: "processRefund st paymentIntentId (binary64 (1255 / 1000)) =
             refunds_create st paymentIntentId 125"
    unfolding processRefund_def b
    by (cases "refunds_create st paymentIntentId 125") simp_all
  show ?thesis
    unfolding createPaymentIntent_def a b
    using r c by blast
qed

section \<open>Order lookup\<close>

text \<open>
  C9. The specification asks that a lookup of an existing order answers
  \<open>ForbiddenError\<close> to a caller who is neither its owner nor an administrator and the
  order to the owner and to any administrator.  Once \<^verbatim>\<open>deleteUser\<close> has removed the
  owner, the populated owner of the order is \<^verbatim>\<open>null\<close> and reading its identifier
  throws: the administrator and the stranger both get a \<open>TypeError\<close>.
\<close>

theorem lookup_of_orphaned_order_throws:
  "deleteUser ''u1'' (ex_shop_with ex_order) = (ex_orphaned, Inr ''User removed'') \<and>
   orders ex_orphaned ''o1'' = Some ex_order \<and>
   user ex_order = ''u1'' \<and>
   users ex_orphaned ''u1'' = None \<and>
   role ex_admin = ''admin'' \<and>
   getOrderById ex_admin ''o1'' ex_orphaned = Inl (TypeError ''Cannot read properties of null'') \<and>
   getOrderById ex_bob ''o1'' ex_orphaned = Inl (TypeError ''Cannot read properties of null'')"
  by (simp add: ex_orphaned_def deleteUser_def getOrderById_def populate_user_def
      ex_shop_with_def ex_shop_def ex_order_fields ex_admin_def)

end
